theory Spec2Isabelle
  imports Main "HOL-Library.Word"
begin

section \<open>Values of the JavaScript program\<close>

text \<open>
  The worker (\<^verbatim>\<open>src/worker.js\<close>) is a Cloudflare Worker: \<^verbatim>\<open>fetch\<close> receives a
  Telegram webhook update, \<^verbatim>\<open>handleMessage\<close> runs the text-to-speech pipeline,
  \<^verbatim>\<open>generateSpeech\<close> calls the Gemini API and wraps the PCM answer with \<^verbatim>\<open>pcmToWav\<close>,
  \<^verbatim>\<open>sendMessage\<close> and \<^verbatim>\<open>sendVoiceMessage\<close> call the Telegram API.

  A JavaScript string is a sequence of UTF-16 code units, a byte of a typed array is an
  8-bit word. JavaScript numbers are modelled as integers: the program only multiplies and
  adds small integral values and stores them into 16- and 32-bit fields.
\<close>

type_synonym byte = "8 word"
type_synonym jsstring = "16 word list"

definition ascii :: "string \<Rightarrow> jsstring" where
  "ascii s = map (\<lambda>c. of_nat (of_char c)) s"

datatype js_error =
    RangeError
  | TypeError
  | SyntaxError
  | InvalidCharacterError
  | NetworkError nat
  | TelegramApiError nat

section \<open>The WAV encoder\<close>

subsection \<open>DataView and typed-array writes\<close>

text \<open>
  \<^verbatim>\<open>view.setUint8(offset, v)\<close>, \<^verbatim>\<open>view.setUint16(offset, v, true)\<close> and
  \<^verbatim>\<open>view.setUint32(offset, v, true)\<close> convert the number modulo \<open>2^8\<close>, \<open>2^16\<close>, \<open>2^32\<close>
  and store it least significant byte first; a write that does not fit into the buffer
  throws a RangeError.
\<close>

definition le_bytes :: "nat \<Rightarrow> int \<Rightarrow> byte list" where
  "le_bytes n v = map (\<lambda>k. word_of_int (v div 256 ^ k)) [0..<n]"

definition store :: "byte list \<Rightarrow> nat \<Rightarrow> byte list \<Rightarrow> js_error + byte list" where
  "store buf offset bs =
     (if offset + length bs \<le> length buf
      then Inr (take offset buf @ bs @ drop (offset + length bs) buf)
      else Inl RangeError)"

definition setUint8 :: "byte list \<Rightarrow> nat \<Rightarrow> int \<Rightarrow> js_error + byte list" where
  "setUint8 buf offset v = store buf offset (le_bytes 1 v)"

definition setUint16 :: "byte list \<Rightarrow> nat \<Rightarrow> int \<Rightarrow> js_error + byte list" where
  "setUint16 buf offset v = store buf offset (le_bytes 2 v)"

definition setUint32 :: "byte list \<Rightarrow> nat \<Rightarrow> int \<Rightarrow> js_error + byte list" where
  "setUint32 buf offset v = store buf offset (le_bytes 4 v)"

text \<open>\<^verbatim>\<open>wavData.set(pcmData, 44)\<close>: copy a byte array into the buffer at an offset.\<close>

definition set_at :: "byte list \<Rightarrow> byte list \<Rightarrow> nat \<Rightarrow> js_error + byte list" where
  "set_at buf src offset = store buf offset src"

text \<open>
  The closure \<^verbatim>\<open>writeString\<close> of \<^verbatim>\<open>pcmToWav\<close>: one \<^verbatim>\<open>setUint8\<close> per code unit, from
  left to right (the loop over \<^verbatim>\<open>i\<close> is the recursion over the string).
\<close>

fun writeString :: "byte list \<Rightarrow> nat \<Rightarrow> jsstring \<Rightarrow> js_error + byte list" where
  "writeString buf offset [] = Inr buf"
| "writeString buf offset (c # cs) =
     (case setUint8 buf offset (uint c) of
        Inl e \<Rightarrow> Inl e
      | Inr buf' \<Rightarrow> writeString buf' (offset + 1) cs)"

text \<open>Sequencing of statements that may throw.\<close>

definition andThen :: "js_error + 'a \<Rightarrow> ('a \<Rightarrow> js_error + 'b) \<Rightarrow> js_error + 'b" where
  "andThen r f = (case r of Inl e \<Rightarrow> Inl e | Inr x \<Rightarrow> f x)"

subsection \<open>pcmToWav\<close>

text \<open>
  The body of \<^verbatim>\<open>pcmToWav\<close> after the allocation, on the buffer it allocated.
  \<^verbatim>\<open>new ArrayBuffer(44 + dataSize)\<close> is filled with zeros.
\<close>

definition pcmToWav_on :: "byte list \<Rightarrow> byte list \<Rightarrow> int \<Rightarrow> int \<Rightarrow> js_error + byte list" where
  "pcmToWav_on buffer pcmData sampleRate channels =
     (let bytesPerSample = 2;
          blockAlign = channels * bytesPerSample;
          byteRate = sampleRate * blockAlign;
          dataSize = int (length pcmData);
          fileSize = 36 + dataSize
      in
      andThen (writeString buffer 0 (ascii ''RIFF'')) (\<lambda>b.
      andThen (setUint32 b 4 fileSize) (\<lambda>b.
      andThen (writeString b 8 (ascii ''WAVE'')) (\<lambda>b.
      andThen (writeString b 12 (ascii ''fmt '')) (\<lambda>b.
      andThen (setUint32 b 16 16) (\<lambda>b.
      andThen (setUint16 b 20 1) (\<lambda>b.
      andThen (setUint16 b 22 channels) (\<lambda>b.
      andThen (setUint32 b 24 sampleRate) (\<lambda>b.
      andThen (setUint32 b 28 byteRate) (\<lambda>b.
      andThen (setUint16 b 32 blockAlign) (\<lambda>b.
      andThen (setUint16 b 34 16) (\<lambda>b.
      andThen (writeString b 36 (ascii ''data'')) (\<lambda>b.
      andThen (setUint32 b 40 dataSize) (\<lambda>b.
      set_at b pcmData 44))))))))))))))"

definition pcmToWav :: "byte list \<Rightarrow> int \<Rightarrow> int \<Rightarrow> js_error + byte list" where
  "pcmToWav pcmData sampleRate channels =
     pcmToWav_on (replicate (44 + length pcmData) 0) pcmData sampleRate channels"

text \<open>Reading a little-endian unsigned field back, as a WAV consumer does.\<close>

definition le_val :: "byte list \<Rightarrow> int" where
  "le_val bs = foldr (\<lambda>b acc. uint b + 256 * acc) bs 0"

definition getUint16 :: "byte list \<Rightarrow> nat \<Rightarrow> int" where
  "getUint16 buf offset = le_val (take 2 (drop offset buf))"

definition getUint32 :: "byte list \<Rightarrow> nat \<Rightarrow> int" where
  "getUint32 buf offset = le_val (take 4 (drop offset buf))"

text \<open>The 44 header bytes, field by field.\<close>

definition wav_header :: "nat \<Rightarrow> int \<Rightarrow> int \<Rightarrow> byte list" where
  "wav_header L R C =
     map ucast (ascii ''RIFF'') @ le_bytes 4 (36 + int L)
     @ map ucast (ascii ''WAVE'')
     @ map ucast (ascii ''fmt '') @ le_bytes 4 16
     @ le_bytes 2 1 @ le_bytes 2 C @ le_bytes 4 R
     @ le_bytes 4 (R * (C * 2)) @ le_bytes 2 (C * 2) @ le_bytes 2 16
     @ map ucast (ascii ''data'') @ le_bytes 4 (int L)"

section \<open>JSON values and property reads\<close>

text \<open>
  The webhook body and the Gemini answer are values produced by \<^verbatim>\<open>JSON.parse\<close>. An
  object is the list of its own properties (looked up with \<open>map_of\<close>). A JavaScript
  expression whose value may be \<^verbatim>\<open>undefined\<close> has type \<open>json option\<close>, with \<open>None\<close> for
  \<^verbatim>\<open>undefined\<close>. Only whether a number is zero is ever observed by the program.
\<close>

datatype json =
    JNull
  | JBool bool
  | JNum int
  | JStr jsstring
  | JArr "json list"
  | JObj "(jsstring \<times> json) list"

text \<open>
  \<open>member v k\<close> is \<^verbatim>\<open>v.k\<close> for a value \<open>v\<close> that is not \<^verbatim>\<open>null\<close>, for the property
  names this program reads (\<^verbatim>\<open>message\<close>, \<^verbatim>\<open>chat\<close>, \<^verbatim>\<open>id\<close>, \<^verbatim>\<open>text\<close>, \<^verbatim>\<open>candidates\<close>,
  \<^verbatim>\<open>content\<close>, \<^verbatim>\<open>parts\<close>, \<^verbatim>\<open>inlineData\<close>, \<^verbatim>\<open>data\<close>): none of them is inherited from a
  prototype, so only an object can have one.
\<close>

fun member :: "json \<Rightarrow> jsstring \<Rightarrow> json option" where
  "member (JObj kvs) k = map_of kvs k"
| "member v k = None"

text \<open>\<^verbatim>\<open>v.k\<close>: reading a property of \<^verbatim>\<open>undefined\<close> or \<^verbatim>\<open>null\<close> throws a TypeError.\<close>

fun dot :: "json option \<Rightarrow> jsstring \<Rightarrow> js_error + json option" where
  "dot None k = Inl TypeError"
| "dot (Some JNull) k = Inl TypeError"
| "dot (Some v) k = Inr (member v k)"

text \<open>\<^verbatim>\<open>v?.k\<close> and \<^verbatim>\<open>v?.[0]\<close>: \<^verbatim>\<open>undefined\<close> when \<open>v\<close> is \<^verbatim>\<open>undefined\<close> or \<^verbatim>\<open>null\<close>.\<close>

fun opt_dot :: "json option \<Rightarrow> jsstring \<Rightarrow> json option" where
  "opt_dot None k = None"
| "opt_dot (Some JNull) k = None"
| "opt_dot (Some v) k = member v k"

fun opt_idx0 :: "json option \<Rightarrow> json option" where
  "opt_idx0 None = None"
| "opt_idx0 (Some JNull) = None"
| "opt_idx0 (Some (JArr xs)) = (case xs of [] \<Rightarrow> None | x # _ \<Rightarrow> Some x)"
| "opt_idx0 (Some (JStr s)) = (case s of [] \<Rightarrow> None | c # _ \<Rightarrow> Some (JStr [c]))"
| "opt_idx0 (Some (JObj kvs)) = map_of kvs (ascii ''0'')"
| "opt_idx0 (Some v) = None"

text \<open>Truthiness, as \<^verbatim>\<open>if (v)\<close> and \<^verbatim>\<open>!v\<close> test it.\<close>

fun truthy :: "json option \<Rightarrow> bool" where
  "truthy None = False"
| "truthy (Some JNull) = False"
| "truthy (Some (JBool b)) = b"
| "truthy (Some (JNum n)) = (n \<noteq> 0)"
| "truthy (Some (JStr s)) = (s \<noteq> [])"
| "truthy (Some v) = True"

text \<open>
  Whether \<^verbatim>\<open>v.toString()\<close> returns: it throws a TypeError on \<^verbatim>\<open>null\<close>, on an object whose
  own property \<^verbatim>\<open>toString\<close> shadows the inherited method (a parsed value is never
  callable), and on an array that has such an object among its elements (\<^verbatim>\<open>null\<close>
  elements are joined as the empty string).
\<close>

fun toString_ok :: "json \<Rightarrow> bool" where
  "toString_ok JNull = False"
| "toString_ok (JObj kvs) = (map_of kvs (ascii ''toString'') = None)"
| "toString_ok (JArr xs) = list_all (\<lambda>x. x = JNull \<or> toString_ok x) xs"
| "toString_ok v = True"

text \<open>
  \<^verbatim>\<open>String.prototype.trim\<close> removes the white space and line terminator code units of
  ECMAScript from both ends.
\<close>

definition is_ws :: "16 word \<Rightarrow> bool" where
  "is_ws c = (c \<in> {0x9, 0xA, 0xB, 0xC, 0xD, 0x20, 0xA0, 0x1680, 0x2028, 0x2029, 0x202F,
                   0x205F, 0x3000, 0xFEFF} \<or> (0x2000 \<le> c \<and> c \<le> 0x200A))"

definition trim :: "jsstring \<Rightarrow> jsstring" where
  "trim s = rev (dropWhile is_ws (rev (dropWhile is_ws s)))"

section \<open>The outside world\<close>

text \<open>
  Every outbound \<^verbatim>\<open>fetch\<close> of the worker is one of three requests. A request is recorded
  with the arguments that make its URL and body: the bot token or API key, the chat id
  (for \<^verbatim>\<open>sendVoice\<close> the value whose \<^verbatim>\<open>toString()\<close> is the form field), the text, the
  uploaded file.
\<close>

datatype request =
    SendMessage jsstring "json option" jsstring
  | GenerateContent jsstring jsstring
  | SendVoice jsstring json "byte list"

record response =
  status :: nat
  body :: "json option"

text \<open>
  \<^verbatim>\<open>response.ok\<close> holds for the statuses 200 to 299; \<open>body\<close> is \<open>None\<close> when
  \<^verbatim>\<open>response.json()\<close> rejects. Reading the text of a response that has arrived
  (\<^verbatim>\<open>response.text()\<close>, only used for the log) is taken to succeed.
\<close>

definition ok :: "response \<Rightarrow> bool" where
  "ok r = (200 \<le> status r \<and> status r \<le> 299)"

datatype outcome = Rejects js_error | Responds response

text \<open>
  The world decides the outcome of the \<open>n\<close>-th outbound request of an invocation. The
  state of an invocation is what it has done so far: the requests sent, the lines written
  with \<^verbatim>\<open>console.error\<close>, and a counter of the calls of \<^verbatim>\<open>pcmToWav\<close> (the encoder is pure,
  the counter makes its invocation visible).
\<close>

type_synonym world = "nat \<Rightarrow> request \<Rightarrow> outcome"

datatype log =
    LogError js_error
  | LogHandleError js_error
  | LogGeminiApiError nat
  | LogNoAudio
  | LogSpeechError js_error
  | LogTelegramApiError nat

record state =
  calls :: "request list"
  logs :: "log list"
  encoded :: nat

definition st0 :: state where
  "st0 = \<lparr>calls = [], logs = [], encoded = 0\<rparr>"

definition http_fetch :: "world \<Rightarrow> request \<Rightarrow> state \<Rightarrow> outcome \<times> state" where
  "http_fetch w req st = (w (length (calls st)) req, st\<lparr>calls := calls st @ [req]\<rparr>)"

definition console_error :: "log \<Rightarrow> state \<Rightarrow> state" where
  "console_error l st = st\<lparr>logs := logs st @ [l]\<rparr>"

text \<open>The second argument of \<^verbatim>\<open>fetch\<close>: the two secrets of the deployment, both strings.\<close>

record bindings =
  TELEGRAM_BOT_TOKEN :: jsstring
  GEMINI_API_KEY :: jsstring

section \<open>The Telegram client\<close>

text \<open>\<^verbatim>\<open>sendMessage\<close> awaits the request and never looks at the response.\<close>

definition sendMessage ::
  "world \<Rightarrow> json option \<Rightarrow> jsstring \<Rightarrow> jsstring \<Rightarrow> state \<Rightarrow> (js_error + unit) \<times> state" where
  "sendMessage w chatId text botToken st =
     (case http_fetch w (SendMessage botToken chatId text) st of
        (Rejects e, st') \<Rightarrow> (Inl e, st')
      | (Responds r, st') \<Rightarrow> (Inr (), st'))"

definition sendVoiceMessage ::
  "world \<Rightarrow> json option \<Rightarrow> byte list \<Rightarrow> jsstring \<Rightarrow> state \<Rightarrow> (js_error + json) \<times> state" where
  "sendVoiceMessage w chatId audioBuffer botToken st =
     (case chatId of
        None \<Rightarrow> (Inl TypeError, st)
      | Some cid \<Rightarrow>
          if \<not> toString_ok cid then (Inl TypeError, st)
          else (case http_fetch w (SendVoice botToken cid audioBuffer) st of
                  (Rejects e, st') \<Rightarrow> (Inl e, st')
                | (Responds r, st') \<Rightarrow>
                    if \<not> ok r
                    then (Inl (TelegramApiError (status r)),
                          console_error (LogTelegramApiError (status r)) st')
                    else (case body r of
                            None \<Rightarrow> (Inl SyntaxError, st')
                          | Some j \<Rightarrow> (Inr j, st'))))"

section \<open>The Gemini client\<close>

text \<open>
  \<^verbatim>\<open>data?.candidates?.[0]?.content?.parts?.[0]?.inlineData?.data\<close>
\<close>

definition audio_path :: "json \<Rightarrow> json option" where
  "audio_path data =
     opt_dot (opt_dot (opt_idx0 (opt_dot (opt_dot (opt_idx0 (opt_dot (Some data)
       (ascii ''candidates''))) (ascii ''content'')) (ascii ''parts'')))
       (ascii ''inlineData'')) (ascii ''data'')"

text \<open>
  \<^verbatim>\<open>atob\<close> belongs to the platform and is a parameter: applied to a JavaScript value it
  returns the decoded bytes (the binary string, whose code units
  \<^verbatim>\<open>Uint8Array.from(..., c => c.charCodeAt(0))\<close> copies one by one) or throws. The whole
  body of \<^verbatim>\<open>generateSpeech\<close> is inside \<^verbatim>\<open>try\<close>: every error is logged and becomes the
  result \<^verbatim>\<open>null\<close>, here \<open>None\<close>. After the test \<^verbatim>\<open>!audioBase64\<close> the value is defined, so
  the \<open>None\<close> branch of the case distinction below it is never taken.
\<close>

definition generateSpeech ::
  "(json \<Rightarrow> js_error + byte list) \<Rightarrow> world \<Rightarrow> jsstring \<Rightarrow> jsstring \<Rightarrow> state
     \<Rightarrow> byte list option \<times> state" where
  "generateSpeech atob w text geminiApiKey st =
     (case http_fetch w (GenerateContent geminiApiKey text) st of
        (Rejects e, st') \<Rightarrow> (None, console_error (LogSpeechError e) st')
      | (Responds r, st') \<Rightarrow>
          if \<not> ok r then (None, console_error (LogGeminiApiError (status r)) st')
          else (case body r of
                  None \<Rightarrow> (None, console_error (LogSpeechError SyntaxError) st')
                | Some data \<Rightarrow>
                    let audioBase64 = audio_path data in
                    if \<not> truthy audioBase64 then (None, console_error LogNoAudio st')
                    else (case audioBase64 of
                            None \<Rightarrow> (None, console_error LogNoAudio st')
                          | Some a \<Rightarrow>
                              (case atob a of
                                 Inl e \<Rightarrow> (None, console_error (LogSpeechError e) st')
                               | Inr audioBuffer \<Rightarrow>
                                   (case pcmToWav audioBuffer 24000 1 of
                                      Inl e \<Rightarrow>
                                        (None, console_error (LogSpeechError e)
                                                 (st'\<lparr>encoded := encoded st' + 1\<rparr>))
                                    | Inr wavBuffer \<Rightarrow>
                                        (Some wavBuffer,
                                         st'\<lparr>encoded := encoded st' + 1\<rparr>))))))"

section \<open>The pipeline\<close>

definition welcome_text :: jsstring where
  "welcome_text =
     ascii ''Send me any text and I'' @ [0x27] @ ascii ''ll convert it to speech using Gemini AI!''"

definition please_text :: jsstring where
  "please_text = ascii ''Please send me some text to convert to speech.''"

text \<open>The first character is U+1F3B5, a surrogate pair.\<close>

definition processing_text :: jsstring where
  "processing_text = [0xD83C, 0xDFB5] @ ascii '' Converting text to speech...''"

text \<open>The first character of the two failure texts is U+274C.\<close>

definition failed_text :: jsstring where
  "failed_text = [0x274C] @ ascii '' Sorry, failed to generate speech. Please try again.''"

definition error_text :: jsstring where
  "error_text = [0x274C] @ ascii '' An error occurred while processing your request.''"

text \<open>
  The \<^verbatim>\<open>try\<close> block of \<^verbatim>\<open>handleMessage\<close>. \<^verbatim>\<open>text.trim()\<close> on a truthy value that is not a
  string throws a TypeError; a typed array is always truthy, so \<^verbatim>\<open>!audioData\<close> holds
  exactly for \<^verbatim>\<open>null\<close>.
\<close>

definition handleMessage_try ::
  "(json \<Rightarrow> js_error + byte list) \<Rightarrow> world \<Rightarrow> json option \<Rightarrow> json option \<Rightarrow> bindings
     \<Rightarrow> state \<Rightarrow> (js_error + unit) \<times> state" where
  "handleMessage_try atob w chatId text env st =
     (if text = Some (JStr (ascii ''/start''))
      then sendMessage w chatId welcome_text (TELEGRAM_BOT_TOKEN env) st
      else if \<not> truthy text
      then sendMessage w chatId please_text (TELEGRAM_BOT_TOKEN env) st
      else (case text of
              Some (JStr s) \<Rightarrow>
                if trim s = []
                then sendMessage w chatId please_text (TELEGRAM_BOT_TOKEN env) st
                else (case sendMessage w chatId processing_text (TELEGRAM_BOT_TOKEN env) st of
                        (Inl e, st1) \<Rightarrow> (Inl e, st1)
                      | (Inr u, st1) \<Rightarrow>
                          (case generateSpeech atob w s (GEMINI_API_KEY env) st1 of
                             (None, st2) \<Rightarrow>
                               sendMessage w chatId failed_text (TELEGRAM_BOT_TOKEN env) st2
                           | (Some audioData, st2) \<Rightarrow>
                               (case sendVoiceMessage w chatId audioData
                                       (TELEGRAM_BOT_TOKEN env) st2 of
                                  (Inl e, st3) \<Rightarrow> (Inl e, st3)
                                | (Inr j, st3) \<Rightarrow> (Inr (), st3))))
            | _ \<Rightarrow> (Inl TypeError, st)))"

text \<open>
  \<^verbatim>\<open>handleMessage\<close>: the two reads \<^verbatim>\<open>message.chat.id\<close> and \<^verbatim>\<open>message.text\<close> are outside the
  \<^verbatim>\<open>try\<close>; the \<^verbatim>\<open>catch\<close> logs the error and sends the generic failure text, and an error
  of that last \<^verbatim>\<open>sendMessage\<close> leaves the function.
\<close>

definition handleMessage ::
  "(json \<Rightarrow> js_error + byte list) \<Rightarrow> world \<Rightarrow> json \<Rightarrow> bindings \<Rightarrow> state
     \<Rightarrow> (js_error + unit) \<times> state" where
  "handleMessage atob w message env st =
     (case dot (Some message) (ascii ''chat'') of
        Inl e \<Rightarrow> (Inl e, st)
      | Inr chat \<Rightarrow>
          (case dot chat (ascii ''id'') of
             Inl e \<Rightarrow> (Inl e, st)
           | Inr chatId \<Rightarrow>
               (case dot (Some message) (ascii ''text'') of
                  Inl e \<Rightarrow> (Inl e, st)
                | Inr text \<Rightarrow>
                    (case handleMessage_try atob w chatId text env st of
                       (Inr u, st') \<Rightarrow> (Inr u, st')
                     | (Inl error, st') \<Rightarrow>
                         sendMessage w chatId error_text (TELEGRAM_BOT_TOKEN env)
                           (console_error (LogHandleError error) st')))))"

section \<open>The webhook entry point\<close>

text \<open>
  The inbound request: its method and its body as \<^verbatim>\<open>request.json()\<close> parses it (\<open>None\<close>
  when the body is not JSON and the promise rejects). The answer: status and text.
\<close>

record http_request =
  http_method :: jsstring
  http_json :: "json option"

record http_response =
  http_status :: nat
  http_text :: jsstring

definition fetch_try ::
  "(json \<Rightarrow> js_error + byte list) \<Rightarrow> world \<Rightarrow> http_request \<Rightarrow> bindings \<Rightarrow> state
     \<Rightarrow> (js_error + http_response) \<times> state" where
  "fetch_try atob w request env st =
     (if http_method request = ascii ''GET''
      then (Inr \<lparr>http_status = 200, http_text = ascii ''Bot is running!''\<rparr>, st)
      else if http_method request \<noteq> ascii ''POST''
      then (Inr \<lparr>http_status = 405, http_text = ascii ''Method not allowed''\<rparr>, st)
      else (case http_json request of
              None \<Rightarrow> (Inl SyntaxError, st)
            | Some update \<Rightarrow>
                (case dot (Some update) (ascii ''message'') of
                   Inl e \<Rightarrow> (Inl e, st)
                 | Inr m \<Rightarrow>
                     (case (if truthy m then m else None) of
                        Some message \<Rightarrow>
                          (case handleMessage atob w message env st of
                             (Inl e, st') \<Rightarrow> (Inl e, st')
                           | (Inr u, st') \<Rightarrow>
                               (Inr \<lparr>http_status = 200, http_text = ascii ''OK''\<rparr>, st'))
                      | None \<Rightarrow>
                          (Inr \<lparr>http_status = 200, http_text = ascii ''OK''\<rparr>, st)))))"

definition fetch ::
  "(json \<Rightarrow> js_error + byte list) \<Rightarrow> world \<Rightarrow> http_request \<Rightarrow> bindings \<Rightarrow> state
     \<Rightarrow> http_response \<times> state" where
  "fetch atob w request env st =
     (case fetch_try atob w request env st of
        (Inr resp, st') \<Rightarrow> (resp, st')
      | (Inl error, st') \<Rightarrow>
          (\<lparr>http_status = 500, http_text = ascii ''Error processing request''\<rparr>,
           console_error (LogError error) st'))"

section \<open>Observations on a run\<close>

fun is_notification :: "request \<Rightarrow> bool" where
  "is_notification (SendMessage token chatId text) = True"
| "is_notification req = False"

section \<open>A concrete platform for example runs\<close>

text \<open>
  The platform's \<^verbatim>\<open>atob\<close> on a string argument is the forgiving base64 decoder of the
  WHATWG Infra standard: ASCII white space is removed, one or two trailing \<^verbatim>\<open>=\<close> are
  dropped when the length is a multiple of 4, a length of 1 modulo 4 or a character
  outside the alphabet is an error, and the bits left over after the last whole byte
  are discarded. The example runs only decode strings; on a value of another type
  (which the platform would first convert to a string) \<open>atob_string\<close> answers with an error.
\<close>

definition b64_index :: "16 word \<Rightarrow> nat option" where
  "b64_index c =
     (if 0x41 \<le> c \<and> c \<le> 0x5A then Some (unat c - 0x41)
      else if 0x61 \<le> c \<and> c \<le> 0x7A then Some (unat c - 0x61 + 26)
      else if 0x30 \<le> c \<and> c \<le> 0x39 then Some (unat c - 0x30 + 52)
      else if c = 0x2B then Some 62
      else if c = 0x2F then Some 63
      else None)"

fun b64_groups :: "nat list \<Rightarrow> byte list" where
  "b64_groups (a # b # c # d # rest) =
     (let n = ((a * 64 + b) * 64 + c) * 64 + d
      in [of_nat (n div 65536), of_nat (n div 256), of_nat n] @ b64_groups rest)"
| "b64_groups [a, b, c] =
     (let n = ((a * 64 + b) * 64 + c) div 4 in [of_nat (n div 256), of_nat n])"
| "b64_groups [a, b] = [of_nat ((a * 64 + b) div 16)]"
| "b64_groups xs = []"

definition strip_padding :: "jsstring \<Rightarrow> jsstring" where
  "strip_padding d =
     (if length d mod 4 \<noteq> 0 \<or> d = [] then d
      else if last d \<noteq> 0x3D then d
      else if last (butlast d) = 0x3D then butlast (butlast d)
      else butlast d)"

definition forgiving_base64_decode :: "jsstring \<Rightarrow> js_error + byte list" where
  "forgiving_base64_decode s =
     (let d = strip_padding (filter (\<lambda>c. c \<notin> {0x9, 0xA, 0xC, 0xD, 0x20}) s)
      in if length d mod 4 = 1 then Inl InvalidCharacterError
         else (case those (map b64_index d) of
                 None \<Rightarrow> Inl InvalidCharacterError
               | Some ns \<Rightarrow> Inr (b64_groups ns)))"

fun atob_string :: "json \<Rightarrow> js_error + byte list" where
  "atob_string (JStr s) = forgiving_base64_decode s"
| "atob_string v = Inl InvalidCharacterError"

text \<open>
  An answer of the Gemini API with the audio at its place, a webhook message of chat 42,
  the worker's bindings, and a world that answers each kind of request in a fixed way.
\<close>

definition gemini_answer :: "json \<Rightarrow> json" where
  "gemini_answer audio =
     JObj [(ascii ''candidates'',
       JArr [JObj [(ascii ''content'',
         JObj [(ascii ''parts'',
           JArr [JObj [(ascii ''inlineData'',
             JObj [(ascii ''mimeType'', JStr (ascii ''audio/L16;codec=pcm;rate=24000'')),
                   (ascii ''data'', audio)])]])])]])]"

definition demo_message :: "json option \<Rightarrow> json" where
  "demo_message text =
     JObj ([(ascii ''message_id'', JNum 7),
            (ascii ''chat'', JObj [(ascii ''id'', JNum 42)])]
           @ (case text of None \<Rightarrow> [] | Some t \<Rightarrow> [(ascii ''text'', t)]))"

definition demo_env :: bindings where
  "demo_env = \<lparr>TELEGRAM_BOT_TOKEN = ascii ''T'', GEMINI_API_KEY = ascii ''K''\<rparr>"

fun demo_world :: "outcome \<Rightarrow> outcome \<Rightarrow> outcome \<Rightarrow> world" where
  "demo_world notify gemini voice n (SendMessage token chatId text) = notify"
| "demo_world notify gemini voice n (GenerateContent key text) = gemini"
| "demo_world notify gemini voice n (SendVoice token chatId file) = voice"

definition answer :: "nat \<Rightarrow> json \<Rightarrow> outcome" where
  "answer code j = Responds \<lparr>status = code, body = Some j\<rparr>"

definition post :: "json \<Rightarrow> http_request" where
  "post update = \<lparr>http_method = ascii ''POST'', http_json = Some update\<rparr>"

text \<open>
  The pieces of the example runs: a Telegram answer, a Gemini answer carrying the four PCM
  bytes 1, 2, 3, 4 in base64, and an update whose message has the text \<^verbatim>\<open>hello\<close>.
\<close>

definition fine :: outcome where
  "fine = answer 200 (JObj [(ascii ''ok'', JBool True)])"

definition audio_answer :: outcome where
  "audio_answer = answer 200 (gemini_answer (JStr (ascii ''AQIDBA=='')))"

definition hello_message :: json where
  "hello_message = demo_message (Some (JStr (ascii ''hello'')))"

section \<open>The encoder writes the header and the samples\<close>

text \<open>
  Each write of \<^verbatim>\<open>pcmToWav\<close> lands right after the bytes written before it, so the buffer
  is at every moment the header written so far followed by the untouched rest.
\<close>

lemma length_le_bytes [simp]: "length (le_bytes n v) = n"
  by (simp add: le_bytes_def)

lemma length_ascii [simp]: "length (ascii s) = length s"
  by (simp add: ascii_def)

lemma store_prefix:
  assumes "length H = off" "off + length bs \<le> length b"
  shows "store (H @ drop off b) off bs = Inr ((H @ bs) @ drop (off + length bs) b)"
  using assms by (simp add: store_def add.commute)

lemma setUint8_prefix:
  assumes "length H = off" "off + 1 \<le> length b"
  shows "setUint8 (H @ drop off b) off v = Inr ((H @ le_bytes 1 v) @ drop (off + 1) b)"
  using store_prefix [of H off "le_bytes 1 v" b] assms by (simp add: setUint8_def)

lemma setUint16_prefix:
  assumes "length H = off" "off + 2 \<le> length b"
  shows "setUint16 (H @ drop off b) off v = Inr ((H @ le_bytes 2 v) @ drop (off + 2) b)"
  using store_prefix [of H off "le_bytes 2 v" b] assms by (simp add: setUint16_def)

lemma setUint32_prefix:
  assumes "length H = off" "off + 4 \<le> length b"
  shows "setUint32 (H @ drop off b) off v = Inr ((H @ le_bytes 4 v) @ drop (off + 4) b)"
  using store_prefix [of H off "le_bytes 4 v" b] assms by (simp add: setUint32_def)

lemma le_bytes_1_uint: "le_bytes (Suc 0) (uint (c :: 16 word)) = [ucast c]"
  by (simp add: le_bytes_def)

lemma writeString_prefix:
  "length H = off \<Longrightarrow> off + length s \<le> length b \<Longrightarrow>
   writeString (H @ drop off b) off s = Inr ((H @ map ucast s) @ drop (off + length s) b)"
proof (induction s arbitrary: H off)
  case Nil then show ?case by simp
next
  case (Cons c cs)
  have "setUint8 (H @ drop off b) off (uint c) = Inr ((H @ [ucast c]) @ drop (off + 1) b)"
    using setUint8_prefix [of H off b "uint c"] Cons.prems by (simp add: le_bytes_1_uint)
  moreover have "writeString ((H @ [ucast c]) @ drop (off + 1) b) (off + 1) cs
      = Inr (((H @ [ucast c]) @ map ucast cs) @ drop (off + 1 + length cs) b)"
    using Cons.prems by (intro Cons.IH) simp_all
  ultimately show ?case by (simp add: add.commute)
qed

lemma writeString_at:
  assumes "length H = off" "length s = n" "off + n \<le> length b"
  shows "writeString (H @ drop off b) off s = Inr ((H @ map ucast s) @ drop (off + n) b)"
  using writeString_prefix [of H off s b] assms by simp

text \<open>
  Whatever the allocated buffer held, the body of \<^verbatim>\<open>pcmToWav\<close> never throws and returns
  the 44 header bytes followed by the samples.
\<close>

lemma pcmToWav_on_eq:
  assumes len: "length b = 44 + length p"
  shows "pcmToWav_on b p R C = Inr (wav_header (length p) R C @ p)"
proof -
  define L where "L = length p"
  define H1 where "H1 = (map ucast (ascii ''RIFF'') :: byte list)"
  define H2 where "H2 = H1 @ le_bytes 4 (36 + int L)"
  define H3 where "H3 = H2 @ map ucast (ascii ''WAVE'')"
  define H4 where "H4 = H3 @ map ucast (ascii ''fmt '')"
  define H5 where "H5 = H4 @ le_bytes 4 16"
  define H6 where "H6 = H5 @ le_bytes 2 1"
  define H7 where "H7 = H6 @ le_bytes 2 C"
  define H8 where "H8 = H7 @ le_bytes 4 R"
  define H9 where "H9 = H8 @ le_bytes 4 (R * (C * 2))"
  define H10 where "H10 = H9 @ le_bytes 2 (C * 2)"
  define H11 where "H11 = H10 @ le_bytes 2 16"
  define H12 where "H12 = H11 @ map ucast (ascii ''data'')"
  define H13 where "H13 = H12 @ le_bytes 4 (int L)"
  note Hs = H1_def H2_def H3_def H4_def H5_def H6_def H7_def H8_def H9_def H10_def
    H11_def H12_def H13_def
  have l: "length H1 = 4" "length H2 = 8" "length H3 = 12" "length H4 = 16" "length H5 = 20"
    "length H6 = 22" "length H7 = 24" "length H8 = 28" "length H9 = 32" "length H10 = 34"
    "length H11 = 36" "length H12 = 40" "length H13 = 44"
    by (simp_all add: Hs)
  have s1: "writeString b 0 (ascii ''RIFF'') = Inr (H1 @ drop 4 b)"
    using writeString_at [of "[]" 0 "ascii ''RIFF''" 4 b] len by (simp add: H1_def)
  have s2: "setUint32 (H1 @ drop 4 b) 4 (36 + int L) = Inr (H2 @ drop 8 b)"
    using setUint32_prefix [of H1 4 b] len l by (simp add: H2_def)
  have s3: "writeString (H2 @ drop 8 b) 8 (ascii ''WAVE'') = Inr (H3 @ drop 12 b)"
    using writeString_at [of H2 8 "ascii ''WAVE''" 4 b] len l by (simp add: H3_def)
  have s4: "writeString (H3 @ drop 12 b) 12 (ascii ''fmt '') = Inr (H4 @ drop 16 b)"
    using writeString_at [of H3 12 "ascii ''fmt ''" 4 b] len l by (simp add: H4_def)
  have s5: "setUint32 (H4 @ drop 16 b) 16 16 = Inr (H5 @ drop 20 b)"
    using setUint32_prefix [of H4 16 b] len l by (simp add: H5_def)
  have s6: "setUint16 (H5 @ drop 20 b) 20 1 = Inr (H6 @ drop 22 b)"
    using setUint16_prefix [of H5 20 b] len l by (simp add: H6_def)
  have s7: "setUint16 (H6 @ drop 22 b) 22 C = Inr (H7 @ drop 24 b)"
    using setUint16_prefix [of H6 22 b] len l by (simp add: H7_def)
  have s8: "setUint32 (H7 @ drop 24 b) 24 R = Inr (H8 @ drop 28 b)"
    using setUint32_prefix [of H7 24 b] len l by (simp add: H8_def)
  have s9: "setUint32 (H8 @ drop 28 b) 28 (R * (C * 2)) = Inr (H9 @ drop 32 b)"
    using setUint32_prefix [of H8 28 b] len l by (simp add: H9_def)
  have s10: "setUint16 (H9 @ drop 32 b) 32 (C * 2) = Inr (H10 @ drop 34 b)"
    using setUint16_prefix [of H9 32 b] len l by (simp add: H10_def)
  have s11: "setUint16 (H10 @ drop 34 b) 34 16 = Inr (H11 @ drop 36 b)"
    using setUint16_prefix [of H10 34 b] len l by (simp add: H11_def)
  have s12: "writeString (H11 @ drop 36 b) 36 (ascii ''data'') = Inr (H12 @ drop 40 b)"
    using writeString_at [of H11 36 "ascii ''data''" 4 b] len l by (simp add: H12_def)
  have s13: "setUint32 (H12 @ drop 40 b) 40 (int L) = Inr (H13 @ drop 44 b)"
    using setUint32_prefix [of H12 40 b] len l by (simp add: H13_def)
  have h: "H13 = wav_header L R C"
    by (simp add: Hs wav_header_def)
  have s14: "set_at (H13 @ drop 44 b) p 44 = Inr (wav_header L R C @ p)"
    using store_prefix [of H13 44 p b] len l h by (simp add: set_at_def)
  show ?thesis
    unfolding pcmToWav_on_def Let_def L_def [symmetric]
    by (simp only: andThen_def s1 s2 s3 s4 s5 s6 s7 s8 s9 s10 s11 s12 s13 s14 sum.case)
qed

lemma le_bytes_Suc: "le_bytes (Suc n) v = word_of_int v # le_bytes n (v div 256)"
proof -
  have "[0..<Suc n] = 0 # map Suc [0..<n]"
    by (simp add: upt_conv_Cons map_Suc_upt del: upt_Suc)
  then show ?thesis
    by (simp add: le_bytes_def comp_def zdiv_zmult2_eq del: upt_Suc) 
qed

lemma le_val_le_bytes: "le_val (le_bytes n v) = v mod 256 ^ n"
proof (induction n arbitrary: v)
  case 0 then show ?case by (simp add: le_bytes_def le_val_def)
next
  case (Suc n)
  have "le_val (le_bytes (Suc n) v) = uint (word_of_int v :: byte) + 256 * le_val (le_bytes n (v div 256))"
    by (simp add: le_bytes_Suc le_val_def)
  also have "\<dots> = v mod 256 + 256 * ((v div 256) mod 256 ^ n)"
    by (simp add: Suc.IH uint_word_of_int)
  also have "\<dots> = v mod 256 ^ Suc n"
    by (simp add: zmod_zmult2_eq)
  finally show ?case .
qed


lemma pcmToWav_eq: "pcmToWav pcm R C = Inr (wav_header (length pcm) R C @ pcm)"
  by (simp add: pcmToWav_def pcmToWav_on_eq)

lemma length_wav_header: "length (wav_header L R C) = 44"
  by (simp add: wav_header_def)

lemma getUint32_header_4:
  "getUint32 (wav_header L R C @ p) 4 = (36 + int L) mod 2 ^ 32"
  by (simp add: getUint32_def wav_header_def le_val_le_bytes)

lemma getUint32_header_28:
  "getUint32 (wav_header L R C @ p) 28 = (R * (C * 2)) mod 2 ^ 32"
  by (simp add: getUint32_def wav_header_def le_val_le_bytes)

lemma getUint16_header_32:
  "getUint16 (wav_header L R C @ p) 32 = (C * 2) mod 2 ^ 16"
  by (simp add: getUint16_def wav_header_def le_val_le_bytes)

lemma getUint32_header_40:
  "getUint32 (wav_header L R C @ p) 40 = int L mod 2 ^ 32"
  by (simp add: getUint32_def wav_header_def le_val_le_bytes)

lemma wav_header_example:
  "wav_header 4 24000 1 = [82, 73, 70, 70, 40, 0, 0, 0, 87, 65, 86, 69, 102, 109, 116, 32,
      16, 0, 0, 0, 1, 0, 1, 0, 192, 93, 0, 0, 128, 187, 0, 0, 2, 0, 16, 0,
      100, 97, 116, 97, 4, 0, 0, 0]"
  by (simp add: wav_header_def ascii_def le_bytes_def upt_conv_Cons)

text \<open>
  Claim C1 (amended). For every PCM byte buffer of length \<open>L\<close>, sample rate \<open>R\<close> and channel
  count \<open>C\<close> whose header values fit their fields (\<open>36 + L < 2^32\<close>, \<open>0 \<le> R\<close>, \<open>0 \<le> C\<close>,
  \<open>R * C * 2 < 2^32\<close>, \<open>C * 2 < 2^16\<close>), \<^verbatim>\<open>pcmToWav\<close> returns a buffer of length \<open>L + 44\<close>
  whose first 44 bytes are the WAV header, with the little-endian fields \<open>dataSize = L\<close> at
  offset 40, \<open>fileSize = 36 + L\<close> at offset 4, \<open>byteRate = R * C * 2\<close> at offset 28 and
  \<open>blockAlign = C * 2\<close> at offset 32, and whose bytes from offset 44 on are the input.
\<close>

theorem pcmToWav_layout:
  assumes "36 + int (length pcm) < 2 ^ 32" "0 \<le> R" "0 \<le> C" "R * C * 2 < 2 ^ 32"
    "C * 2 < 2 ^ 16"
  shows "\<exists>out. pcmToWav pcm R C = Inr out
     \<and> length out = length pcm + 44
     \<and> take 44 out = wav_header (length pcm) R C
     \<and> getUint32 out 40 = int (length pcm)
     \<and> getUint32 out 4 = 36 + int (length pcm)
     \<and> getUint32 out 28 = R * C * 2
     \<and> getUint16 out 32 = C * 2
     \<and> drop 44 out = pcm"
proof (intro exI conjI)
  show "pcmToWav pcm R C = Inr (wav_header (length pcm) R C @ pcm)"
    by (rule pcmToWav_eq)
  show "length (wav_header (length pcm) R C @ pcm) = length pcm + 44"
    by (simp add: length_wav_header)
  show "take 44 (wav_header (length pcm) R C @ pcm) = wav_header (length pcm) R C"
    by (simp add: length_wav_header)
  show "drop 44 (wav_header (length pcm) R C @ pcm) = pcm"
    by (simp add: length_wav_header)
  show "getUint32 (wav_header (length pcm) R C @ pcm) 40 = int (length pcm)"
    using assms(1) by (simp add: getUint32_header_40)
  show "getUint32 (wav_header (length pcm) R C @ pcm) 4 = 36 + int (length pcm)"
    using assms(1) by (simp add: getUint32_header_4)
  have "0 \<le> R * (C * 2)" using assms(2,3) by simp
  then show "getUint32 (wav_header (length pcm) R C @ pcm) 28 = R * C * 2"
    using assms(4) by (simp add: getUint32_header_28 mult.assoc)
  show "getUint16 (wav_header (length pcm) R C @ pcm) 32 = C * 2"
    using assms(3,5) by (simp add: getUint16_header_32)
qed

text \<open>
  The example of the specification: the samples 1, 2, 3, 4 at 24000 Hz, mono, give 48
  bytes, with 04 00 00 00 at offset 40 and 28 00 00 00 at offset 4.
\<close>

theorem pcmToWav_layout_witness:
  "(36 + int (length [1, 2, 3, 4 :: byte]) < 2 ^ 32 \<and> (0::int) \<le> 24000 \<and> (0::int) \<le> 1
      \<and> (24000::int) * 1 * 2 < 2 ^ 32 \<and> (1::int) * 2 < 2 ^ 16)
   \<and> (\<exists>out. pcmToWav [1, 2, 3, 4] 24000 1 = Inr out
        \<and> length out = 48
        \<and> getUint32 out 40 = 4 \<and> take 4 (drop 40 out) = [0x04, 0, 0, 0]
        \<and> getUint32 out 4 = 40 \<and> take 4 (drop 4 out) = [0x28, 0, 0, 0]
        \<and> getUint32 out 28 = 48000 \<and> getUint16 out 32 = 2
        \<and> drop 44 out = [1, 2, 3, 4])"
proof -
  have h: "36 + int (length [1, 2, 3, 4 :: byte]) < 2 ^ 32" "(0::int) \<le> 24000" "(0::int) \<le> 1"
    "(24000::int) * 1 * 2 < 2 ^ 32" "(1::int) * 2 < 2 ^ 16"
    by simp_all
  from pcmToWav_layout [OF h]
  obtain out where out: "pcmToWav [1, 2, 3, 4] 24000 1 = Inr out"
    "length out = length [1, 2, 3, 4 :: byte] + 44"
    "take 44 out = wav_header (length [1, 2, 3, 4 :: byte]) 24000 1"
    "getUint32 out 40 = int (length [1, 2, 3, 4 :: byte])"
    "getUint32 out 4 = 36 + int (length [1, 2, 3, 4 :: byte])"
    "getUint32 out 28 = 24000 * 1 * 2"
    "getUint16 out 32 = 1 * 2" "drop 44 out = [1, 2, 3, 4]"
    by blast
  have l: "length [1, 2, 3, 4 :: byte] = 4" by simp
  have "take 4 (drop 40 (take 44 out)) = [0x04, 0, 0, 0]"
    by (simp only: out(3) l wav_header_example) simp
  then have a: "take 4 (drop 40 out) = [0x04, 0, 0, 0]"
    by (simp add: drop_take)
  have "take 4 (drop 4 (take 44 out)) = [0x28, 0, 0, 0]"
    by (simp only: out(3) l wav_header_example) simp
  then have b: "take 4 (drop 4 out) = [0x28, 0, 0, 0]"
    by (simp add: drop_take min_def)
  show ?thesis using out(1,2,4-) a b by simp
qed

text \<open>
  Without the bounds the claim fails: the block alignment field has 16 bits, and with
  32768 channels \<^verbatim>\<open>setUint16\<close> stores \<open>65536 mod 2^16 = 0\<close> at offset 32.
\<close>

theorem pcmToWav_blockAlign_counterexample:
  "\<not> isl (pcmToWav [1, 2, 3, 4] 24000 32768)
   \<and> getUint16 (projr (pcmToWav [1, 2, 3, 4] 24000 32768)) 32 \<noteq> 32768 * 2"
  by (simp add: pcmToWav_eq getUint16_header_32)

text \<open>
  Claim C9. The encoder is deterministic: for every PCM buffer, sample rate and channel
  count, \<^verbatim>\<open>pcmToWav\<close> returns, and any two invocations on the same arguments return the
  same bytes. The result does not depend on anything but the three arguments, not even
  on what the buffer allocated by an invocation held before it was written.
\<close>

theorem pcmToWav_deterministic:
  "\<exists>out. pcmToWav pcm R C = Inr out
     \<and> (\<forall>buffer. length buffer = 44 + length pcm \<longrightarrow> pcmToWav_on buffer pcm R C = Inr out)"
  by (simp add: pcmToWav_eq pcmToWav_on_eq)

theorem pcmToWav_deterministic_witness:
  "length (replicate 48 (0xAA :: byte)) = 44 + length [1, 2, 3, 4 :: byte]
   \<and> pcmToWav_on (replicate 48 0xAA) [1, 2, 3, 4] 24000 1 = pcmToWav [1, 2, 3, 4] 24000 1
   \<and> \<not> isl (pcmToWav [1, 2, 3, 4] 24000 1)"
proof -
  from pcmToWav_deterministic [of "[1, 2, 3, 4]" 24000 1]
  obtain out where o: "pcmToWav [1, 2, 3, 4] 24000 1 = Inr out"
    "\<forall>buffer. length buffer = 44 + length [1, 2, 3, 4 :: byte]
        \<longrightarrow> pcmToWav_on buffer [1, 2, 3, 4] 24000 1 = Inr out"
    by blast
  have l: "length (replicate 48 (0xAA :: byte)) = 44 + length [1, 2, 3, 4 :: byte]"
    by simp
  from o(2) l have "pcmToWav_on (replicate 48 0xAA) [1, 2, 3, 4] 24000 1 = Inr out"
    by blast
  with o(1) l show ?thesis by simp
qed

section \<open>Runs of the pipeline\<close>

lemma sendMessage_eq:
  "sendMessage w chatId text botToken st =
     (case w (length (calls st)) (SendMessage botToken chatId text) of
        Rejects e \<Rightarrow> Inl e | Responds r \<Rightarrow> Inr (),
      st\<lparr>calls := calls st @ [SendMessage botToken chatId text]\<rparr>)"
  by (simp add: sendMessage_def http_fetch_def split: outcome.split)

lemma dot_member: "v \<noteq> JNull \<Longrightarrow> dot (Some v) k = Inr (member v k)"
  by (cases v) simp_all

lemma member_not_null: "member v k = Some x \<Longrightarrow> v \<noteq> JNull"
  by (cases v) simp_all

lemma post_not_get: "ascii ''POST'' \<noteq> ascii ''GET''"
  by (simp add: ascii_def)

lemmas run_defs = handleMessage_def handleMessage_try_def generateSpeech_def
  sendVoiceMessage_def sendMessage_def http_fetch_def console_error_def st0_def

lemma trim_empty_iff: "trim s = [] \<longleftrightarrow> (\<forall>c\<in>set s. is_ws c)"
proof
  assume "trim s = []"
  then have a: "dropWhile is_ws (rev (dropWhile is_ws s)) = []"
    by (simp add: trim_def)
  have "dropWhile is_ws s = []"
  proof (rule ccontr)
    assume n: "dropWhile is_ws s \<noteq> []"
    then have "\<not> is_ws (hd (dropWhile is_ws s))" by (rule hd_dropWhile)
    moreover have "hd (dropWhile is_ws s) \<in> set (rev (dropWhile is_ws s))"
      using n by simp
    ultimately show False using a by auto
  qed
  then show "\<forall>c\<in>set s. is_ws c" by simp
next
  assume "\<forall>c\<in>set s. is_ws c"
  then have "dropWhile is_ws s = []" by simp
  then show "trim s = []" unfolding trim_def by (simp only: rev.simps dropWhile.simps)
qed

subsection \<open>Facts about the example platform\<close>

lemma decode_example: "forgiving_base64_decode (ascii ''AQIDBA=='') = Inr [1, 2, 3, 4]"
  by (simp add: forgiving_base64_decode_def strip_padding_def b64_index_def ascii_def)

lemma atob_example: "atob_string (JStr (ascii ''AQIDBA=='')) = Inr [1, 2, 3, 4]"
  by (simp add: decode_example)

lemma four_bytes: "Suc (Suc (Suc (Suc 0))) = 4"
  by simp

lemma audio_nonempty: "ascii ''AQIDBA=='' \<noteq> []"
  by (simp add: ascii_def)

lemma message_key: "ascii ''message'' \<noteq> ascii ''update_id''"
  by (simp add: ascii_def)

lemma dot_demo_message: "dot (Some (demo_message t)) k = Inr (member (demo_message t) k)"
  by (simp add: demo_message_def)

lemma audio_path_gemini_answer: "audio_path (gemini_answer a) = Some a"
  by (simp add: audio_path_def gemini_answer_def ascii_def)

lemma trim_hello: "trim (ascii ''hello'') = ascii ''hello''"
  by (simp add: trim_def ascii_def is_ws_def)

lemma hello_not_start: "ascii ''hello'' \<noteq> ascii ''/start''"
  by (simp add: ascii_def)

lemma demo_message_chat:
  "member (demo_message t) (ascii ''chat'') = Some (JObj [(ascii ''id'', JNum 42)])"
  by (simp add: demo_message_def ascii_def)

lemma demo_message_text: "member (demo_message t) (ascii ''text'') = t"
  by (cases t) (simp_all add: demo_message_def ascii_def)

lemma demo_chat_id: "member (JObj [(ascii ''id'', JNum 42)]) (ascii ''id'') = Some (JNum 42)"
  by simp

lemma hello_nonempty: "ascii ''hello'' \<noteq> []"
  by (simp add: ascii_def)

lemma hello_message_truthy: "truthy (Some hello_message)"
  by (simp add: hello_message_def demo_message_def)

lemma update_message:
  "member (JObj [(ascii ''update_id'', JNum 1), (ascii ''message'', m)]) (ascii ''message'') = Some m"
  by (simp add: ascii_def)

lemmas demo_simps = hello_message_def demo_message_chat demo_message_text fine_def
  audio_answer_def answer_def ok_def audio_path_gemini_answer atob_example trim_hello
  hello_not_start hello_nonempty update_message decode_example audio_nonempty message_key
  dot_demo_message

subsection \<open>Validation\<close>

text \<open>
  Claim C4. For every inbound message (an object with its \<^verbatim>\<open>chat\<close>, as every Telegram
  message has one) whose text is absent, \<^verbatim>\<open>null\<close>, empty or made of white space only,
  \<^verbatim>\<open>handleMessage\<close> sends the notification
  "Please send me some text to convert to speech." and makes no synthesis request, no
  encoder call and no upload. When the notification request completes, that is the only
  request and the handler returns normally with nothing logged: the validation outcome
  is never an error. Only when the platform rejects the notification request does the
  \<^verbatim>\<open>catch\<close> block send the generic failure text, and only a rejection of that second
  request leaves the handler.
\<close>

theorem handleMessage_no_text:
  assumes chat: "member message (ascii ''chat'') = Some chat" "chat \<noteq> JNull"
    and body_text: "member message (ascii ''text'') = None
        \<or> member message (ascii ''text'') = Some JNull
        \<or> (\<exists>s. member message (ascii ''text'') = Some (JStr s) \<and> (\<forall>c\<in>set s. is_ws c))"
  shows "handleMessage atob w message env st0 =
     (case w 0 (SendMessage (TELEGRAM_BOT_TOKEN env) (member chat (ascii ''id'')) please_text) of
        Responds r \<Rightarrow>
          (Inr (),
           \<lparr>calls = [SendMessage (TELEGRAM_BOT_TOKEN env) (member chat (ascii ''id'')) please_text],
            logs = [], encoded = 0\<rparr>)
      | Rejects e \<Rightarrow>
          (case w 1 (SendMessage (TELEGRAM_BOT_TOKEN env) (member chat (ascii ''id'')) error_text) of
             Rejects e' \<Rightarrow> Inl e' | Responds r \<Rightarrow> Inr (),
           \<lparr>calls = [SendMessage (TELEGRAM_BOT_TOKEN env) (member chat (ascii ''id'')) please_text,
                     SendMessage (TELEGRAM_BOT_TOKEN env) (member chat (ascii ''id'')) error_text],
            logs = [LogHandleError e], encoded = 0\<rparr>))"
proof -
  have m: "message \<noteq> JNull" using chat(1) by (rule member_not_null)
  have ws: "\<not> is_ws 0x2F" by (simp add: is_ws_def)
  have ns: "\<And>s. \<forall>c\<in>set s. is_ws c \<Longrightarrow> s \<noteq> ascii ''/start''"
    using ws by (auto simp: ascii_def)
  from body_text show ?thesis
  proof (elim disjE exE conjE)
    assume "member message (ascii ''text'') = None"
    then show ?thesis using chat(2) m
      by (simp add: run_defs dot_member chat(1) split: outcome.split)
  next
    assume "member message (ascii ''text'') = Some JNull"
    then show ?thesis using chat(2) m
      by (simp add: run_defs dot_member chat(1) split: outcome.split)
  next
    fix s assume a: "member message (ascii ''text'') = Some (JStr s)" "\<forall>c\<in>set s. is_ws c"
    have "trim s = []" using a(2) by (simp add: trim_empty_iff)
    moreover have "s \<noteq> ascii ''/start''" using a(2) by (rule ns)
    ultimately show ?thesis using chat(2) m a(1)
      by (simp add: run_defs dot_member chat(1) split: outcome.split)
  qed
qed

theorem handleMessage_no_text_witness:
  "handleMessage atob_string (demo_world fine audio_answer fine)
       (demo_message (Some (JStr [0x20, 0x0A, 0xA0]))) demo_env st0 =
     (Inr (),
      \<lparr>calls = [SendMessage (ascii ''T'') (Some (JNum 42)) please_text],
       logs = [], encoded = 0\<rparr>)
   \<and> handleMessage atob_string (demo_world fine audio_answer fine)
       (demo_message None) demo_env st0 =
     (Inr (),
      \<lparr>calls = [SendMessage (ascii ''T'') (Some (JNum 42)) please_text],
       logs = [], encoded = 0\<rparr>)"
  using handleMessage_no_text [where message = "demo_message (Some (JStr [0x20, 0x0A, 0xA0]))"
      and chat = "JObj [(ascii ''id'', JNum 42)]"
      and w = "demo_world fine audio_answer fine" and env = demo_env and atob = atob_string]
    handleMessage_no_text [where message = "demo_message None"
      and chat = "JObj [(ascii ''id'', JNum 42)]"
      and w = "demo_world fine audio_answer fine" and env = demo_env and atob = atob_string]
  by (simp add: demo_simps demo_env_def is_ws_def)

text \<open>
  Claim C5. For every inbound message (an object with its \<^verbatim>\<open>chat\<close>) whose text is exactly
  \<^verbatim>\<open>/start\<close>,
  \<^verbatim>\<open>handleMessage\<close> sends the static welcome text and makes no synthesis request, no
  encoder call and no upload.
\<close>

theorem handleMessage_start:
  assumes chat: "member message (ascii ''chat'') = Some chat" "chat \<noteq> JNull"
    and body_text: "member message (ascii ''text'') = Some (JStr (ascii ''/start''))"
  shows "handleMessage atob w message env st0 =
     (case w 0 (SendMessage (TELEGRAM_BOT_TOKEN env) (member chat (ascii ''id'')) welcome_text) of
        Responds r \<Rightarrow>
          (Inr (),
           \<lparr>calls = [SendMessage (TELEGRAM_BOT_TOKEN env) (member chat (ascii ''id'')) welcome_text],
            logs = [], encoded = 0\<rparr>)
      | Rejects e \<Rightarrow>
          (case w 1 (SendMessage (TELEGRAM_BOT_TOKEN env) (member chat (ascii ''id'')) error_text) of
             Rejects e' \<Rightarrow> Inl e' | Responds r \<Rightarrow> Inr (),
           \<lparr>calls = [SendMessage (TELEGRAM_BOT_TOKEN env) (member chat (ascii ''id'')) welcome_text,
                     SendMessage (TELEGRAM_BOT_TOKEN env) (member chat (ascii ''id'')) error_text],
            logs = [LogHandleError e], encoded = 0\<rparr>))"
proof -
  have m: "message \<noteq> JNull" using chat(1) by (rule member_not_null)
  show ?thesis
    using chat(2) m
    by (simp add: run_defs dot_member chat(1) body_text split: outcome.split)
qed

theorem handleMessage_start_witness:
  "handleMessage atob_string (demo_world fine audio_answer fine)
       (demo_message (Some (JStr (ascii ''/start'')))) demo_env st0 =
     (Inr (),
      \<lparr>calls = [SendMessage (ascii ''T'') (Some (JNum 42)) welcome_text],
       logs = [], encoded = 0\<rparr>)"
  using handleMessage_start [where message = "demo_message (Some (JStr (ascii ''/start'')))"
      and chat = "JObj [(ascii ''id'', JNum 42)]"
      and w = "demo_world fine audio_answer fine" and env = demo_env and atob = atob_string]
  by (simp add: demo_simps demo_env_def)

subsection \<open>Synthesis failures\<close>

text \<open>
  Claim C6. For every inbound message whose synthesis request is answered with a
  non-success HTTP status, \<^verbatim>\<open>generateSpeech\<close> returns \<^verbatim>\<open>null\<close>, the notification
  "Sorry, failed to generate speech. Please try again." is sent to the user, the encoder
  is not called and no upload is made.
\<close>

theorem handleMessage_synthesis_status:
  assumes chat: "member message (ascii ''chat'') = Some chat" "chat \<noteq> JNull"
    and body_text: "member message (ascii ''text'') = Some (JStr s)" "s \<noteq> ascii ''/start''"
      "trim s \<noteq> []"
    and notified:
      "w 0 (SendMessage (TELEGRAM_BOT_TOKEN env) (member chat (ascii ''id'')) processing_text)
         = Responds r0"
    and synthesis: "w 1 (GenerateContent (GEMINI_API_KEY env) s) = Responds r1" "\<not> ok r1"
  shows "fst (generateSpeech atob w s (GEMINI_API_KEY env)
            (st0\<lparr>calls := [SendMessage (TELEGRAM_BOT_TOKEN env) (member chat (ascii ''id''))
                              processing_text]\<rparr>)) = None
   \<and> handleMessage atob w message env st0 =
     (case w 2 (SendMessage (TELEGRAM_BOT_TOKEN env) (member chat (ascii ''id'')) failed_text) of
        Responds r \<Rightarrow>
          (Inr (),
           \<lparr>calls = [SendMessage (TELEGRAM_BOT_TOKEN env) (member chat (ascii ''id'')) processing_text,
                     GenerateContent (GEMINI_API_KEY env) s,
                     SendMessage (TELEGRAM_BOT_TOKEN env) (member chat (ascii ''id'')) failed_text],
            logs = [LogGeminiApiError (status r1)], encoded = 0\<rparr>)
      | Rejects e \<Rightarrow>
          (case w 3 (SendMessage (TELEGRAM_BOT_TOKEN env) (member chat (ascii ''id'')) error_text) of
             Rejects e' \<Rightarrow> Inl e' | Responds r \<Rightarrow> Inr (),
           \<lparr>calls = [SendMessage (TELEGRAM_BOT_TOKEN env) (member chat (ascii ''id'')) processing_text,
                     GenerateContent (GEMINI_API_KEY env) s,
                     SendMessage (TELEGRAM_BOT_TOKEN env) (member chat (ascii ''id'')) failed_text,
                     SendMessage (TELEGRAM_BOT_TOKEN env) (member chat (ascii ''id'')) error_text],
            logs = [LogGeminiApiError (status r1), LogHandleError e], encoded = 0\<rparr>))"
proof -
  have m: "message \<noteq> JNull" using chat(1) by (rule member_not_null)
  have t: "s \<noteq> []" using body_text(3) by (auto simp: trim_def)
  have w1: "w (Suc 0) (GenerateContent (GEMINI_API_KEY env) s) = Responds r1"
    using synthesis(1) by simp
  show ?thesis
    using assms(2-5) m t
    by (simp add: run_defs dot_member chat(1) notified w1 synthesis(2-)
        numeral_2_eq_2 numeral_3_eq_3 split: outcome.split)
qed

theorem handleMessage_synthesis_status_witness:
  "fst (generateSpeech atob_string (demo_world fine (answer 503 JNull) fine) (ascii ''hello'')
          (ascii ''K'')
          (st0\<lparr>calls := [SendMessage (ascii ''T'') (Some (JNum 42)) processing_text]\<rparr>)) = None
   \<and> handleMessage atob_string (demo_world fine (answer 503 JNull) fine) hello_message
       demo_env st0 =
     (Inr (),
      \<lparr>calls = [SendMessage (ascii ''T'') (Some (JNum 42)) processing_text,
                GenerateContent (ascii ''K'') (ascii ''hello''),
                SendMessage (ascii ''T'') (Some (JNum 42)) failed_text],
       logs = [LogGeminiApiError 503], encoded = 0\<rparr>)"
  using handleMessage_synthesis_status [where message = hello_message
      and chat = "JObj [(ascii ''id'', JNum 42)]" and s = "ascii ''hello''"
      and w = "demo_world fine (answer 503 JNull) fine" and env = demo_env
      and ?r0.0 = "\<lparr>status = 200, body = Some (JObj [(ascii ''ok'', JBool True)])\<rparr>"
      and ?r1.0 = "\<lparr>status = 503, body = Some JNull\<rparr>" and atob = atob_string]
  by (simp add: demo_simps demo_env_def)

text \<open>
  Claim C7. For every inbound message whose synthesis request is answered with success
  but with a JSON body that lacks the audio field at
  \<^verbatim>\<open>candidates[0].content.parts[0].inlineData.data\<close>, \<^verbatim>\<open>generateSpeech\<close> returns \<^verbatim>\<open>null\<close>,
  the encoder is not called and no upload is made.
\<close>

theorem handleMessage_synthesis_no_audio:
  assumes chat: "member message (ascii ''chat'') = Some chat" "chat \<noteq> JNull"
    and body_text: "member message (ascii ''text'') = Some (JStr s)" "s \<noteq> ascii ''/start''"
      "trim s \<noteq> []"
    and notified:
      "w 0 (SendMessage (TELEGRAM_BOT_TOKEN env) (member chat (ascii ''id'')) processing_text)
         = Responds r0"
    and synthesis: "w 1 (GenerateContent (GEMINI_API_KEY env) s) = Responds r1" "ok r1"
      "body r1 = Some data" "audio_path data = None"
  shows "fst (generateSpeech atob w s (GEMINI_API_KEY env)
            (st0\<lparr>calls := [SendMessage (TELEGRAM_BOT_TOKEN env) (member chat (ascii ''id''))
                              processing_text]\<rparr>)) = None
   \<and> handleMessage atob w message env st0 =
     (case w 2 (SendMessage (TELEGRAM_BOT_TOKEN env) (member chat (ascii ''id'')) failed_text) of
        Responds r \<Rightarrow>
          (Inr (),
           \<lparr>calls = [SendMessage (TELEGRAM_BOT_TOKEN env) (member chat (ascii ''id'')) processing_text,
                     GenerateContent (GEMINI_API_KEY env) s,
                     SendMessage (TELEGRAM_BOT_TOKEN env) (member chat (ascii ''id'')) failed_text],
            logs = [LogNoAudio], encoded = 0\<rparr>)
      | Rejects e \<Rightarrow>
          (case w 3 (SendMessage (TELEGRAM_BOT_TOKEN env) (member chat (ascii ''id'')) error_text) of
             Rejects e' \<Rightarrow> Inl e' | Responds r \<Rightarrow> Inr (),
           \<lparr>calls = [SendMessage (TELEGRAM_BOT_TOKEN env) (member chat (ascii ''id'')) processing_text,
                     GenerateContent (GEMINI_API_KEY env) s,
                     SendMessage (TELEGRAM_BOT_TOKEN env) (member chat (ascii ''id'')) failed_text,
                     SendMessage (TELEGRAM_BOT_TOKEN env) (member chat (ascii ''id'')) error_text],
            logs = [LogNoAudio, LogHandleError e], encoded = 0\<rparr>))"
proof -
  have m: "message \<noteq> JNull" using chat(1) by (rule member_not_null)
  have t: "s \<noteq> []" using body_text(3) by (auto simp: trim_def)
  have w1: "w (Suc 0) (GenerateContent (GEMINI_API_KEY env) s) = Responds r1"
    using synthesis(1) by simp
  show ?thesis
    using assms(2-5) m t
    by (simp add: run_defs dot_member chat(1) notified w1 synthesis(2-)
        numeral_2_eq_2 numeral_3_eq_3 split: outcome.split)
qed

theorem handleMessage_synthesis_no_audio_witness:
  "fst (generateSpeech atob_string
          (demo_world fine (answer 200 (JObj [(ascii ''candidates'', JArr [])])) fine)
          (ascii ''hello'') (ascii ''K'')
          (st0\<lparr>calls := [SendMessage (ascii ''T'') (Some (JNum 42)) processing_text]\<rparr>)) = None
   \<and> handleMessage atob_string
       (demo_world fine (answer 200 (JObj [(ascii ''candidates'', JArr [])])) fine) hello_message
       demo_env st0 =
     (Inr (),
      \<lparr>calls = [SendMessage (ascii ''T'') (Some (JNum 42)) processing_text,
                GenerateContent (ascii ''K'') (ascii ''hello''),
                SendMessage (ascii ''T'') (Some (JNum 42)) failed_text],
       logs = [LogNoAudio], encoded = 0\<rparr>)"
  using handleMessage_synthesis_no_audio [where message = hello_message
      and chat = "JObj [(ascii ''id'', JNum 42)]" and s = "ascii ''hello''"
      and w = "demo_world fine (answer 200 (JObj [(ascii ''candidates'', JArr [])])) fine"
      and env = demo_env
      and ?r0.0 = "\<lparr>status = 200, body = Some (JObj [(ascii ''ok'', JBool True)])\<rparr>"
      and ?r1.0 = "\<lparr>status = 200, body = Some (JObj [(ascii ''candidates'', JArr [])])\<rparr>"
      and data = "JObj [(ascii ''candidates'', JArr [])]" and atob = atob_string]
  by (simp add: demo_simps demo_env_def audio_path_def)

subsection \<open>Delivery\<close>

text \<open>
  Claim C8. For every inbound message with a text that is not empty after trimming and
  is not \<^verbatim>\<open>/start\<close>, when the synthesis succeeds and the upload succeeds, \<^verbatim>\<open>handleMessage\<close>
  completes normally after exactly three requests (the "processing" notification, the
  synthesis, the upload): no failure notification is sent and nothing is logged.
\<close>

theorem handleMessage_success:
  assumes chat: "member message (ascii ''chat'') = Some chat" "chat \<noteq> JNull"
    and cid: "member chat (ascii ''id'') = Some cid" "toString_ok cid"
    and body_text: "member message (ascii ''text'') = Some (JStr s)" "s \<noteq> ascii ''/start''"
      "trim s \<noteq> []"
    and notified:
      "w 0 (SendMessage (TELEGRAM_BOT_TOKEN env) (Some cid) processing_text) = Responds r0"
    and synthesis: "w 1 (GenerateContent (GEMINI_API_KEY env) s) = Responds r1" "ok r1"
      "body r1 = Some data" "audio_path data = Some a" "truthy (Some a)" "atob a = Inr pcm"
    and delivery:
      "w 2 (SendVoice (TELEGRAM_BOT_TOKEN env) cid (wav_header (length pcm) 24000 1 @ pcm))
         = Responds r2" "ok r2" "body r2 = Some j"
  shows "handleMessage atob w message env st0 =
     (Inr (),
      \<lparr>calls = [SendMessage (TELEGRAM_BOT_TOKEN env) (Some cid) processing_text,
                GenerateContent (GEMINI_API_KEY env) s,
                SendVoice (TELEGRAM_BOT_TOKEN env) cid
                  (wav_header (length pcm) 24000 1 @ pcm)],
       logs = [], encoded = 1\<rparr>)"
proof -
  have m: "message \<noteq> JNull" using chat(1) by (rule member_not_null)
  have t: "s \<noteq> []" using body_text(3) by (auto simp: trim_def)
  have w1: "w (Suc 0) (GenerateContent (GEMINI_API_KEY env) s) = Responds r1"
    using synthesis(1) by simp
  have w2: "w (Suc (Suc 0)) (SendVoice (TELEGRAM_BOT_TOKEN env) cid (wav_header (length pcm) 24000 1 @ pcm))
         = Responds r2" using delivery(1) by (simp add: numeral_2_eq_2)
  show ?thesis
    using assms(2-7) m t
    by (simp add: run_defs dot_member chat(1) notified w1 w2 synthesis(2-) delivery(2-) pcmToWav_eq)
qed

theorem handleMessage_success_witness:
  "handleMessage atob_string (demo_world fine audio_answer fine) hello_message demo_env st0 =
     (Inr (),
      \<lparr>calls = [SendMessage (TELEGRAM_BOT_TOKEN demo_env) (Some (JNum 42)) processing_text,
                GenerateContent (GEMINI_API_KEY demo_env) (ascii ''hello''),
                SendVoice (TELEGRAM_BOT_TOKEN demo_env) (JNum 42)
                  (wav_header (length [1, 2, 3, 4 :: byte]) 24000 1 @ [1, 2, 3, 4])],
       logs = [], encoded = 1\<rparr>)"
proof (rule handleMessage_success)
  show "member hello_message (ascii ''chat'') = Some (JObj [(ascii ''id'', JNum 42)])"
    by (simp add: hello_message_def demo_message_chat)
  show "JObj [(ascii ''id'', JNum 42)] \<noteq> JNull" by simp
  show "member (JObj [(ascii ''id'', JNum 42)]) (ascii ''id'') = Some (JNum 42)" by simp
  show "toString_ok (JNum 42)" by simp
  show "member hello_message (ascii ''text'') = Some (JStr (ascii ''hello''))"
    by (simp add: hello_message_def demo_message_text)
  show "ascii ''hello'' \<noteq> ascii ''/start''" by (rule hello_not_start)
  show "trim (ascii ''hello'') \<noteq> []" by (simp add: trim_hello) (simp add: ascii_def)
  show "demo_world fine audio_answer fine 0
      (SendMessage (TELEGRAM_BOT_TOKEN demo_env) (Some (JNum 42)) processing_text)
      = Responds \<lparr>status = 200, body = Some (JObj [(ascii ''ok'', JBool True)])\<rparr>"
    by (simp add: fine_def answer_def)
  show "demo_world fine audio_answer fine 1
      (GenerateContent (GEMINI_API_KEY demo_env) (ascii ''hello''))
      = Responds \<lparr>status = 200, body = Some (gemini_answer (JStr (ascii ''AQIDBA=='')))\<rparr>"
    by (simp add: audio_answer_def answer_def)
  show "ok \<lparr>status = 200, body = Some (gemini_answer (JStr (ascii ''AQIDBA=='')))\<rparr>"
    by (simp add: ok_def)
  show "body \<lparr>status = 200, body = Some (gemini_answer (JStr (ascii ''AQIDBA=='')))\<rparr>
      = Some (gemini_answer (JStr (ascii ''AQIDBA=='')))" by simp
  show "audio_path (gemini_answer (JStr (ascii ''AQIDBA==''))) = Some (JStr (ascii ''AQIDBA==''))"
    by (rule audio_path_gemini_answer)
  show "truthy (Some (JStr (ascii ''AQIDBA=='')))" by (simp add: ascii_def)
  show "atob_string (JStr (ascii ''AQIDBA=='')) = Inr [1, 2, 3, 4]" by (rule atob_example)
  show "demo_world fine audio_answer fine 2
      (SendVoice (TELEGRAM_BOT_TOKEN demo_env) (JNum 42)
         (wav_header (length [1, 2, 3, 4 :: byte]) 24000 1 @ [1, 2, 3, 4]))
      = Responds \<lparr>status = 200, body = Some (JObj [(ascii ''ok'', JBool True)])\<rparr>"
    by (simp add: fine_def answer_def)
  show "ok \<lparr>status = 200, body = Some (JObj [(ascii ''ok'', JBool True)])\<rparr>"
    by (simp add: ok_def)
  show "body \<lparr>status = 200, body = Some (JObj [(ascii ''ok'', JBool True)])\<rparr>
      = Some (JObj [(ascii ''ok'', JBool True)])" by simp
qed

text \<open>
  Claim C2 (amended). For every inbound message whose synthesis succeeds but whose upload
  is answered with a non-success status, \<^verbatim>\<open>sendVoiceMessage\<close> throws, and
  \<^verbatim>\<open>handleMessage\<close> catches the error, logs it and sends the user the generic failure
  notification. The error is not propagated: when that notification request completes,
  \<^verbatim>\<open>handleMessage\<close> returns normally and \<^verbatim>\<open>fetch\<close> answers 200 "OK".
\<close>

theorem handleMessage_delivery_failure:
  assumes chat: "member message (ascii ''chat'') = Some chat" "chat \<noteq> JNull"
    and cid: "member chat (ascii ''id'') = Some cid" "toString_ok cid"
    and body_text: "member message (ascii ''text'') = Some (JStr s)" "s \<noteq> ascii ''/start''"
      "trim s \<noteq> []"
    and notified:
      "w 0 (SendMessage (TELEGRAM_BOT_TOKEN env) (Some cid) processing_text) = Responds r0"
    and synthesis: "w 1 (GenerateContent (GEMINI_API_KEY env) s) = Responds r1" "ok r1"
      "body r1 = Some data" "audio_path data = Some a" "truthy (Some a)" "atob a = Inr pcm"
    and delivery:
      "w 2 (SendVoice (TELEGRAM_BOT_TOKEN env) cid (wav_header (length pcm) 24000 1 @ pcm))
         = Responds r2" "\<not> ok r2"
    and update: "member update (ascii ''message'') = Some message"
  shows "handleMessage atob w message env st0 =
     (case w 3 (SendMessage (TELEGRAM_BOT_TOKEN env) (Some cid) error_text) of
        Rejects e \<Rightarrow> Inl e | Responds r \<Rightarrow> Inr (),
      \<lparr>calls = [SendMessage (TELEGRAM_BOT_TOKEN env) (Some cid) processing_text,
                GenerateContent (GEMINI_API_KEY env) s,
                SendVoice (TELEGRAM_BOT_TOKEN env) cid
                  (wav_header (length pcm) 24000 1 @ pcm),
                SendMessage (TELEGRAM_BOT_TOKEN env) (Some cid) error_text],
       logs = [LogTelegramApiError (status r2), LogHandleError (TelegramApiError (status r2))],
       encoded = 1\<rparr>)
   \<and> (\<forall>r3. w 3 (SendMessage (TELEGRAM_BOT_TOKEN env) (Some cid) error_text) = Responds r3
        \<longrightarrow> fst (fetch atob w (post update) env st0)
            = \<lparr>http_status = 200, http_text = ascii ''OK''\<rparr>)"
proof -
  have m: "message \<noteq> JNull" using chat(1) by (rule member_not_null)
  have u: "update \<noteq> JNull" using update by (rule member_not_null)
  have tm: "truthy (Some message)" using chat(1) by (cases message) simp_all
  have t: "s \<noteq> []" using body_text(3) by (auto simp: trim_def)
  have w1: "w (Suc 0) (GenerateContent (GEMINI_API_KEY env) s) = Responds r1"
    using synthesis(1) by simp
  have w2: "w (Suc (Suc 0)) (SendVoice (TELEGRAM_BOT_TOKEN env) cid (wav_header (length pcm) 24000 1 @ pcm))
         = Responds r2" using delivery(1) by (simp add: numeral_2_eq_2)
  have h: "handleMessage atob w message env st0 =
     (case w 3 (SendMessage (TELEGRAM_BOT_TOKEN env) (Some cid) error_text) of
        Rejects e \<Rightarrow> Inl e | Responds r \<Rightarrow> Inr (),
      \<lparr>calls = [SendMessage (TELEGRAM_BOT_TOKEN env) (Some cid) processing_text,
                GenerateContent (GEMINI_API_KEY env) s,
                SendVoice (TELEGRAM_BOT_TOKEN env) cid
                  (wav_header (length pcm) 24000 1 @ pcm),
                SendMessage (TELEGRAM_BOT_TOKEN env) (Some cid) error_text],
       logs = [LogTelegramApiError (status r2), LogHandleError (TelegramApiError (status r2))],
       encoded = 1\<rparr>)"
    using assms(2-7) m t
    by (simp add: run_defs dot_member chat(1) notified w1 w2 synthesis(2-) delivery(2-)
        pcmToWav_eq numeral_3_eq_3 split: outcome.split)
  show ?thesis
  proof (intro conjI allI impI)
    show "handleMessage atob w message env st0 =
     (case w 3 (SendMessage (TELEGRAM_BOT_TOKEN env) (Some cid) error_text) of
        Rejects e \<Rightarrow> Inl e | Responds r \<Rightarrow> Inr (),
      \<lparr>calls = [SendMessage (TELEGRAM_BOT_TOKEN env) (Some cid) processing_text,
                GenerateContent (GEMINI_API_KEY env) s,
                SendVoice (TELEGRAM_BOT_TOKEN env) cid
                  (wav_header (length pcm) 24000 1 @ pcm),
                SendMessage (TELEGRAM_BOT_TOKEN env) (Some cid) error_text],
       logs = [LogTelegramApiError (status r2), LogHandleError (TelegramApiError (status r2))],
       encoded = 1\<rparr>)"
      by (rule h)
  next
    fix r3
    assume "w 3 (SendMessage (TELEGRAM_BOT_TOKEN env) (Some cid) error_text) = Responds r3"
    then show "fst (fetch atob w (post update) env st0)
        = \<lparr>http_status = 200, http_text = ascii ''OK''\<rparr>"
      using u tm by (simp add: h fetch_def fetch_try_def post_def post_not_get dot_member update)
  qed
qed

theorem handleMessage_delivery_failure_witness:
  "handleMessage atob_string (demo_world fine audio_answer (answer 400 JNull)) hello_message
       demo_env st0 =
     (Inr (),
      \<lparr>calls = [SendMessage (ascii ''T'') (Some (JNum 42)) processing_text,
                GenerateContent (ascii ''K'') (ascii ''hello''),
                SendVoice (ascii ''T'') (JNum 42) (wav_header 4 24000 1 @ [1, 2, 3, 4]),
                SendMessage (ascii ''T'') (Some (JNum 42)) error_text],
       logs = [LogTelegramApiError 400, LogHandleError (TelegramApiError 400)],
       encoded = 1\<rparr>)
   \<and> fst (fetch atob_string (demo_world fine audio_answer (answer 400 JNull))
           (post (JObj [(ascii ''update_id'', JNum 1), (ascii ''message'', hello_message)]))
           demo_env st0)
       = \<lparr>http_status = 200, http_text = ascii ''OK''\<rparr>"
  using handleMessage_delivery_failure [where message = hello_message
      and chat = "JObj [(ascii ''id'', JNum 42)]" and cid = "JNum 42" and s = "ascii ''hello''"
      and w = "demo_world fine audio_answer (answer 400 JNull)" and env = demo_env
      and ?r0.0 = "\<lparr>status = 200, body = Some (JObj [(ascii ''ok'', JBool True)])\<rparr>"
      and ?r1.0 = "\<lparr>status = 200, body = Some (gemini_answer (JStr (ascii ''AQIDBA=='')))\<rparr>"
      and data = "gemini_answer (JStr (ascii ''AQIDBA==''))"
      and a = "JStr (ascii ''AQIDBA=='')" and atob = atob_string and pcm = "[1, 2, 3, 4]"
      and ?r2.0 = "\<lparr>status = 400, body = Some JNull\<rparr>"
      and update = "JObj [(ascii ''update_id'', JNum 1), (ascii ''message'', hello_message)]"]
  by (simp add: demo_simps demo_env_def four_bytes)

text \<open>
  The claim as first stated fails: with an upload answered 400 the message handler
  returns normally and the invocation ends with 200 "OK", no error reaches \<^verbatim>\<open>fetch\<close>.
\<close>

theorem delivery_error_swallowed_counterexample:
  "calls (snd (handleMessage atob_string (demo_world fine audio_answer (answer 400 JNull))
                 hello_message demo_env st0))
     = [SendMessage (ascii ''T'') (Some (JNum 42)) processing_text,
        GenerateContent (ascii ''K'') (ascii ''hello''),
        SendVoice (ascii ''T'') (JNum 42) (wav_header 4 24000 1 @ [1, 2, 3, 4]),
        SendMessage (ascii ''T'') (Some (JNum 42)) error_text]
   \<and> fst (handleMessage atob_string (demo_world fine audio_answer (answer 400 JNull))
            hello_message demo_env st0) = Inr ()
   \<and> fst (fetch atob_string (demo_world fine audio_answer (answer 400 JNull))
           (post (JObj [(ascii ''update_id'', JNum 1), (ascii ''message'', hello_message)]))
           demo_env st0)
       = \<lparr>http_status = 200, http_text = ascii ''OK''\<rparr>"
proof -
  have h: "handleMessage atob_string (demo_world fine audio_answer (answer 400 JNull))
       hello_message demo_env st0 =
     (Inr (),
      \<lparr>calls = [SendMessage (ascii ''T'') (Some (JNum 42)) processing_text,
                GenerateContent (ascii ''K'') (ascii ''hello''),
                SendVoice (ascii ''T'') (JNum 42) (wav_header 4 24000 1 @ [1, 2, 3, 4]),
                SendMessage (ascii ''T'') (Some (JNum 42)) error_text],
       logs = [LogTelegramApiError 400, LogHandleError (TelegramApiError 400)],
       encoded = 1\<rparr>)"
    by (simp add: run_defs demo_simps demo_env_def pcmToWav_eq four_bytes)
  show ?thesis
    by (simp add: h fetch_def fetch_try_def post_def post_not_get message_key
        hello_message_truthy)
qed

subsection \<open>Notifications\<close>

lemma sendVoiceMessage_world:
  assumes "\<And>n req. \<not> is_notification req \<Longrightarrow> w n req = w' n req"
  shows "sendVoiceMessage w chatId audio token st = sendVoiceMessage w' chatId audio token st"
  using assms [of "SendVoice token _ audio"]
  by (simp add: sendVoiceMessage_def http_fetch_def split: option.split)

lemma generateSpeech_world:
  assumes "\<And>n req. \<not> is_notification req \<Longrightarrow> w n req = w' n req"
  shows "generateSpeech atob w text key st = generateSpeech atob w' text key st"
  using assms [of "GenerateContent key text"]
  by (simp add: generateSpeech_def http_fetch_def)

lemma sendMessage_world:
  assumes "\<And>n req. is_notification req \<Longrightarrow>
      w n req = w' n req \<or> (\<exists>r r'. w n req = Responds r \<and> w' n req = Responds r')"
  shows "sendMessage w chatId text token st = sendMessage w' chatId text token st"
  using assms [of "SendMessage token chatId text" "length (calls st)"]
  by (auto simp: sendMessage_eq)

text \<open>
  Claim C3 (amended). For every inbound message, a status notification that the platform
  answers with a non-success status (or any other answer) is never propagated and never
  alters the pipeline: \<^verbatim>\<open>sendMessage\<close> does not look at the answer, so two worlds that
  differ only in the answers given to notification requests, and agree on which of them
  are rejected, give the same requests, the same log and the same result, for
  \<^verbatim>\<open>handleMessage\<close> and for \<^verbatim>\<open>fetch\<close>.
\<close>

theorem notification_status_ignored:
  assumes others: "\<And>n req. \<not> is_notification req \<Longrightarrow> w n req = w' n req"
    and notifications: "\<And>n req. is_notification req \<Longrightarrow>
      w n req = w' n req \<or> (\<exists>r r'. w n req = Responds r \<and> w' n req = Responds r')"
  shows "handleMessage atob w message env st = handleMessage atob w' message env st
    \<and> fetch atob w request env st = fetch atob w' request env st"
proof -
  have v: "\<And>c a t s. sendVoiceMessage w c a t s = sendVoiceMessage w' c a t s"
    using others by (rule sendVoiceMessage_world)
  have g: "\<And>t k s. generateSpeech atob w t k s = generateSpeech atob w' t k s"
    using others by (rule generateSpeech_world)
  have n: "\<And>c x t s. sendMessage w c x t s = sendMessage w' c x t s"
    using notifications by (rule sendMessage_world)
  have t: "\<And>c x s. handleMessage_try atob w c x env s = handleMessage_try atob w' c x env s"
    by (simp only: handleMessage_try_def v g n)
  have h: "\<And>m s. handleMessage atob w m env s = handleMessage atob w' m env s"
    by (simp only: handleMessage_def t n)
  show ?thesis
    by (simp only: h fetch_def fetch_try_def)
qed

theorem notification_status_ignored_witness:
  "handleMessage atob_string (demo_world fine audio_answer fine) hello_message demo_env st0
     = handleMessage atob_string (demo_world (answer 500 JNull) audio_answer fine)
         hello_message demo_env st0
   \<and> fetch atob_string (demo_world fine audio_answer fine)
         (post (JObj [(ascii ''update_id'', JNum 1), (ascii ''message'', hello_message)]))
         demo_env st0
     = fetch atob_string (demo_world (answer 500 JNull) audio_answer fine)
         (post (JObj [(ascii ''update_id'', JNum 1), (ascii ''message'', hello_message)]))
         demo_env st0"
proof (rule notification_status_ignored)
  fix n req
  show "\<not> is_notification req \<Longrightarrow>
      demo_world fine audio_answer fine n req
        = demo_world (answer 500 JNull) audio_answer fine n req"
    by (cases req) simp_all
  show "is_notification req \<Longrightarrow>
      demo_world fine audio_answer fine n req
        = demo_world (answer 500 JNull) audio_answer fine n req
      \<or> (\<exists>r r'. demo_world fine audio_answer fine n req = Responds r
            \<and> demo_world (answer 500 JNull) audio_answer fine n req = Responds r')"
    by (cases req) (simp_all add: fine_def answer_def)
qed

text \<open>
  The claim as first stated fails for a thrown transport error: \<^verbatim>\<open>sendMessage\<close> has no
  \<^verbatim>\<open>try\<close>, so a rejected "processing" notification is caught by \<^verbatim>\<open>handleMessage\<close>, no
  synthesis request is made, and the rejection of the generic failure notification that
  follows leaves the handler.
\<close>

theorem notification_rejected_counterexample:
  "handleMessage atob_string (demo_world (Rejects (NetworkError 0)) audio_answer fine)
       hello_message demo_env st0 =
     (Inl (NetworkError 0),
      \<lparr>calls = [SendMessage (ascii ''T'') (Some (JNum 42)) processing_text,
                SendMessage (ascii ''T'') (Some (JNum 42)) error_text],
       logs = [LogHandleError (NetworkError 0)], encoded = 0\<rparr>)"
  by (simp add: run_defs demo_simps demo_env_def)

subsection \<open>Updates without a message\<close>

text \<open>
  Claim C10 (amended). For every inbound POST request whose parsed JSON body is not
  \<^verbatim>\<open>null\<close> and has no \<^verbatim>\<open>message\<close> field, \<^verbatim>\<open>fetch\<close> makes no outbound request, logs
  nothing and answers 200 "OK".
\<close>

theorem fetch_without_message:
  assumes "update \<noteq> JNull" "member update (ascii ''message'') = None"
  shows "fetch atob w (post update) env st
     = (\<lparr>http_status = 200, http_text = ascii ''OK''\<rparr>, st)"
  using assms by (simp add: fetch_def fetch_try_def post_def post_not_get dot_member)

theorem fetch_without_message_witness:
  "JObj [(ascii ''update_id'', JNum 1)] \<noteq> JNull
   \<and> member (JObj [(ascii ''update_id'', JNum 1)]) (ascii ''message'') = None
   \<and> fetch atob_string (demo_world (answer 200 (JObj [])) (answer 200 (JObj [])) (answer 200 (JObj [])))
       (post (JObj [(ascii ''update_id'', JNum 1)])) demo_env st0
     = (\<lparr>http_status = 200, http_text = ascii ''OK''\<rparr>, st0)"
  using fetch_without_message [of "JObj [(ascii ''update_id'', JNum 1)]" atob_string
      "demo_world (answer 200 (JObj [])) (answer 200 (JObj [])) (answer 200 (JObj []))" demo_env st0]
  by (simp add: ascii_def)

text \<open>
  The body \<^verbatim>\<open>null\<close> has no \<^verbatim>\<open>message\<close> field either, but reading \<^verbatim>\<open>update.message\<close>
  throws a TypeError there, and the \<^verbatim>\<open>catch\<close> of \<^verbatim>\<open>fetch\<close> answers 500.
\<close>

theorem fetch_null_body_counterexample:
  "fetch atob_string (demo_world (answer 200 (JObj [])) (answer 200 (JObj [])) (answer 200 (JObj [])))
       (post JNull) demo_env st0
     = (\<lparr>http_status = 500, http_text = ascii ''Error processing request''\<rparr>,
        \<lparr>calls = [], logs = [LogError TypeError], encoded = 0\<rparr>)"
  by (simp add: fetch_def fetch_try_def post_def post_not_get st0_def console_error_def)

end
